theory Spec2Isabelle
  imports Main "HOL-Library.AList"
begin

section \<open>The macOS bundle script \<open>data/macos/bundle.py\<close>\<close>

text \<open>
  The script reads the environment variable \<open>SCRIPT_NAME\<close>, builds two option
  dictionaries and hands them, with one \<open>Executable\<close>, to \<open>cx_Freeze.setup\<close>.
  The model follows the script top to bottom. What the script computes is the argument
  list of the \<open>setup\<close> call; \<open>setup\<close> and the constructor \<open>Executable\<close> belong to
  cx_Freeze, so the call is the result of the model and \<open>Executable\<close> is a constructor
  that stores its script path. \<open>VERSION\<close> is imported from \<open>carla_host\<close>, which is not
  part of the script: it is a parameter.
\<close>

subsection \<open>Python values, errors, the environment\<close>

text \<open>
  The values the script stores in its dictionaries: booleans, strings, lists and
  dictionaries with string keys. A dictionary is an association list in insertion
  order, with no key twice.
\<close>

datatype pyval =
    PyBool bool
  | PyStr string
  | PyList "pyval list"
  | PyDict "(string \<times> pyval) list"

type_synonym pydict = "(string \<times> pyval) list"

datatype error =
    TypeError string
  | ValueError string

text \<open>\<open>os.environ\<close>; \<open>getenv key\<close> is \<open>os.environ.get(key)\<close>, \<open>None\<close> for a missing key.\<close>

type_synonym environ = "string \<rightharpoonup> string"

definition getenv :: "environ \<Rightarrow> string \<Rightarrow> string option" where
  "getenv env key = env key"

text \<open>\<open>str(x)\<close> for the two kinds of value \<open>getenv\<close> returns.\<close>

fun py_str :: "string option \<Rightarrow> string" where
  "py_str None = ''None''"
| "py_str (Some s) = s"

text \<open>\<open>d[key] = value\<close>: replaces the value of a present key in place, appends a new key.\<close>

definition setitem :: "string \<Rightarrow> pyval \<Rightarrow> pydict \<Rightarrow> pydict" where
  "setitem key v d = AList.update key v d"

subsection \<open>The \<open>%\<close> operator on strings\<close>

text \<open>
  \<open>format % args\<close>, scanning the format from left to right. \<open>%s\<close> takes the next
  argument (already converted by \<open>str\<close>), \<open>%%\<close> is a percent sign. A \<open>%\<close> at the
  end of the format is Python's "incomplete format", a \<open>%s\<close> with no argument left is
  "not enough arguments for format string", an argument left at the end is "not all
  arguments converted during string formatting". The script uses no other conversion, and
  the model reads every other character after \<open>%\<close> as an unsupported one.
\<close>

fun percent_format :: "string \<Rightarrow> string list \<Rightarrow> error + string" where
  "percent_format [] [] = Inr []"
| "percent_format [] (a # as) =
     Inl (TypeError ''not all arguments converted during string formatting'')"
| "percent_format (c # cs) args =
     (if c \<noteq> CHR ''%'' then
        (case percent_format cs args of Inl e \<Rightarrow> Inl e | Inr r \<Rightarrow> Inr (c # r))
      else
        (case cs of
           [] \<Rightarrow> Inl (ValueError ''incomplete format'')
         | d # ds \<Rightarrow>
             if d = CHR ''%'' then
               (case percent_format ds args of Inl e \<Rightarrow> Inl e | Inr r \<Rightarrow> Inr (CHR ''%'' # r))
             else if d = CHR ''s'' then
               (case args of
                  [] \<Rightarrow> Inl (TypeError ''not enough arguments for format string'')
                | a # as \<Rightarrow>
                    (case percent_format ds as of Inl e \<Rightarrow> Inl e | Inr r \<Rightarrow> Inr (a @ r)))
             else Inl (ValueError ''unsupported format character'')))"

text \<open>
  \<open>format % x\<close> where \<open>x\<close> is \<open>None\<close> or a string: the operand is not a tuple, so it is the
  single argument.
\<close>

definition py_mod :: "string \<Rightarrow> string option \<Rightarrow> error + string" where
  "py_mod format x = percent_format format [py_str x]"

subsection \<open>The script\<close>

text \<open>Line 17: \<open>SCRIPT_NAME = getenv("SCRIPT_NAME")\<close>.\<close>

definition SCRIPT_NAME :: "environ \<Rightarrow> string option" where
  "SCRIPT_NAME env = getenv env ''SCRIPT_NAME''"

text \<open>Lines 19 to 24.\<close>

definition options :: pydict where
  "options =
     [(''zip_include_packages'', PyList [PyStr ''*'']),
      (''zip_exclude_packages'', PyList [PyStr ''PyQt5'']),
      (''replace_paths'', PyList [PyList [PyStr ''*'', PyStr ''@executable_path/'']]),
      (''optimize'', PyBool True)]"

text \<open>Lines 26 to 28: \<open>boptions\<close> as first assigned.\<close>

definition boptions_init :: pydict where
  "boptions_init = [(''iconfile'', PyStr ''./resources/ico/carla.icns'')]"

text \<open>
  Lines 30 and 31: \<open>boptions\<close> after the conditional. \<open>x in (a, b)\<close> compares \<open>x\<close> with
  each element of the tuple; \<open>None\<close> equals no string.
\<close>

definition boptions :: "string option \<Rightarrow> error + pydict" where
  "boptions script_name =
     (if script_name \<in> set [Some ''Carla'', Some ''Carla-Control''] then
        (case py_mod ''./data/macos/%s_Info.plist'' script_name of
           Inl e \<Rightarrow> Inl e
         | Inr p \<Rightarrow> Inr (setitem ''custom_info_plist'' (PyStr p) boptions_init))
      else Inr boptions_init)"

text \<open>Lines 33 to 37: the keyword arguments of the \<open>setup\<close> call.\<close>

datatype executable = Executable string

record setup_call =
  kw_name :: string
  kw_version :: pyval
  kw_description :: string
  kw_options :: pydict
  kw_executables :: "executable list"

text \<open>
  The whole script: either the error it raises before \<open>setup\<close> is called, or the call.
  The arguments are evaluated in the order they are written, after the conditional.
\<close>

definition bundle_py :: "pyval \<Rightarrow> environ \<Rightarrow> error + setup_call" where
  "bundle_py VERSION env =
     (let script_name = SCRIPT_NAME env in
      case boptions script_name of
        Inl e \<Rightarrow> Inl e
      | Inr bopts \<Rightarrow>
          (case py_mod ''./source/frontend/%s.pyw'' script_name of
             Inl e \<Rightarrow> Inl e
           | Inr path \<Rightarrow>
               Inr \<lparr> kw_name = ''Carla'',
                     kw_version = VERSION,
                     kw_description = ''Carla Plugin Host'',
                     kw_options = [(''build_exe'', PyDict options), (''bdist_mac'', PyDict bopts)],
                     kw_executables = [Executable path] \<rparr>))"

text \<open>The dictionary passed to \<open>setup\<close> under \<open>options["bdist_mac"]\<close>, if there is one.\<close>

definition bdist_mac :: "setup_call \<Rightarrow> pydict option" where
  "bdist_mac call =
     (case map_of (kw_options call) ''bdist_mac'' of
        Some (PyDict d) \<Rightarrow> Some d
      | _ \<Rightarrow> None)"

definition build_exe :: "setup_call \<Rightarrow> pydict option" where
  "build_exe call =
     (case map_of (kw_options call) ''build_exe'' of
        Some (PyDict d) \<Rightarrow> Some d
      | _ \<Rightarrow> None)"

section \<open>Formatting with one \<open>%s\<close>\<close>

lemma py_mod_frontend:
  "py_mod ''./source/frontend/%s.pyw'' x = Inr (''./source/frontend/'' @ py_str x @ ''.pyw'')"
  by (simp add: py_mod_def)

lemma py_mod_plist:
  "py_mod ''./data/macos/%s_Info.plist'' x = Inr (''./data/macos/'' @ py_str x @ ''_Info.plist'')"
  by (simp add: py_mod_def)

section \<open>What the script computes\<close>

text \<open>
  A literal stretch of a format, one with no percent sign in it, is copied to the result.
\<close>

lemma percent_format_literal:
  "CHR ''%'' \<notin> set p \<Longrightarrow>
   percent_format (p @ f) args =
     (case percent_format f args of Inl e \<Rightarrow> Inl e | Inr r \<Rightarrow> Inr (p @ r))"
  by (induction p) (auto split: sum.splits)

text \<open>The conditional raises nothing; it appends the key for the two names only.\<close>

lemma boptions_value:
  "boptions sn =
     Inr (if sn = Some ''Carla'' \<or> sn = Some ''Carla-Control''
          then boptions_init @
               [(''custom_info_plist'', PyStr (''./data/macos/'' @ py_str sn @ ''_Info.plist''))]
          else boptions_init)"
  by (auto simp add: boptions_def py_mod_plist setitem_def boptions_init_def)

text \<open>The \<open>setup\<close> call of a run, for any environment.\<close>

lemma bundle_py_value:
  "bundle_py VERSION env =
     Inr \<lparr> kw_name = ''Carla'',
           kw_version = VERSION,
           kw_description = ''Carla Plugin Host'',
           kw_options =
             [(''build_exe'', PyDict options),
              (''bdist_mac'',
               PyDict (if SCRIPT_NAME env = Some ''Carla'' \<or> SCRIPT_NAME env = Some ''Carla-Control''
                       then boptions_init @
                            [(''custom_info_plist'',
                              PyStr (''./data/macos/'' @ py_str (SCRIPT_NAME env) @ ''_Info.plist''))]
                       else boptions_init))],
           kw_executables =
             [Executable (''./source/frontend/'' @ py_str (SCRIPT_NAME env) @ ''.pyw'')] \<rparr>"
  by (simp add: bundle_py_def boptions_value py_mod_frontend Let_def)

lemma SCRIPT_NAME_unset: "SCRIPT_NAME Map.empty = None"
  by (simp add: SCRIPT_NAME_def getenv_def)

lemma SCRIPT_NAME_set: "SCRIPT_NAME [''SCRIPT_NAME'' \<mapsto> v] = Some v"
  by (simp add: SCRIPT_NAME_def getenv_def)

section \<open>The claims\<close>

text \<open>
  C1. In every run where \<open>SCRIPT_NAME\<close> has a value \<open>v\<close>, the script reaches \<open>setup\<close>, and the
  list of executables it passes has one element, whose path is \<open>./source/frontend/\<close>
  followed by \<open>v\<close> followed by \<open>.pyw\<close>. The value is copied as it is, percent signs included.
\<close>

theorem C1_executable_path:
  assumes "SCRIPT_NAME env = Some v"
  shows "\<exists>call. bundle_py VERSION env = Inr call \<and>
           kw_executables call = [Executable (''./source/frontend/'' @ v @ ''.pyw'')]"
  using assms by (simp add: bundle_py_value)

theorem C1_executable_path_witness:
  "SCRIPT_NAME [''SCRIPT_NAME'' \<mapsto> ''a%sb''] = Some ''a%sb'' \<and>
   (\<exists>call. bundle_py (PyStr ''2.0'') [''SCRIPT_NAME'' \<mapsto> ''a%sb''] = Inr call \<and>
      kw_executables call = [Executable ''./source/frontend/a%sb.pyw''])"
proof -
  have h: "SCRIPT_NAME [''SCRIPT_NAME'' \<mapsto> ''a%sb''] = Some ''a%sb''"
    by (rule SCRIPT_NAME_set)
  from C1_executable_path [OF h, of "PyStr ''2.0''"] h show ?thesis by simp
qed

text \<open>
  C2. If \<open>SCRIPT_NAME\<close> is \<open>Carla\<close>, then after the conditional \<open>boptions\<close> maps
  \<open>custom_info_plist\<close> to \<open>./data/macos/Carla_Info.plist\<close>, and this is the dictionary
  passed to \<open>setup\<close> for \<open>bdist_mac\<close>.
\<close>

theorem C2_plist_Carla:
  assumes "SCRIPT_NAME env = Some ''Carla''"
  shows "\<exists>b call. boptions (SCRIPT_NAME env) = Inr b \<and>
           map_of b ''custom_info_plist'' = Some (PyStr ''./data/macos/Carla_Info.plist'') \<and>
           bundle_py VERSION env = Inr call \<and> bdist_mac call = Some b"
  using assms by (simp add: bundle_py_value boptions_value bdist_mac_def boptions_init_def)

theorem C2_plist_Carla_witness:
  "SCRIPT_NAME [''SCRIPT_NAME'' \<mapsto> ''Carla''] = Some ''Carla'' \<and>
   (\<exists>b call. boptions (SCRIPT_NAME [''SCRIPT_NAME'' \<mapsto> ''Carla'']) = Inr b \<and>
      map_of b ''custom_info_plist'' = Some (PyStr ''./data/macos/Carla_Info.plist'') \<and>
      bundle_py (PyStr ''2.0'') [''SCRIPT_NAME'' \<mapsto> ''Carla''] = Inr call \<and>
      bdist_mac call = Some b)"
proof -
  have h: "SCRIPT_NAME [''SCRIPT_NAME'' \<mapsto> ''Carla''] = Some ''Carla''"
    by (rule SCRIPT_NAME_set)
  from C2_plist_Carla [OF h, of "PyStr ''2.0''"] h show ?thesis by simp
qed

text \<open>
  C3. If \<open>SCRIPT_NAME\<close> is \<open>Carla-Control\<close>, then after the conditional \<open>boptions\<close> maps
  \<open>custom_info_plist\<close> to \<open>./data/macos/Carla-Control_Info.plist\<close>, and this is the
  dictionary passed to \<open>setup\<close> for \<open>bdist_mac\<close>.
\<close>

theorem C3_plist_Carla_Control:
  assumes "SCRIPT_NAME env = Some ''Carla-Control''"
  shows "\<exists>b call. boptions (SCRIPT_NAME env) = Inr b \<and>
           map_of b ''custom_info_plist'' =
             Some (PyStr ''./data/macos/Carla-Control_Info.plist'') \<and>
           bundle_py VERSION env = Inr call \<and> bdist_mac call = Some b"
  using assms by (simp add: bundle_py_value boptions_value bdist_mac_def boptions_init_def)

theorem C3_plist_Carla_Control_witness:
  "SCRIPT_NAME [''SCRIPT_NAME'' \<mapsto> ''Carla-Control''] = Some ''Carla-Control'' \<and>
   (\<exists>b call. boptions (SCRIPT_NAME [''SCRIPT_NAME'' \<mapsto> ''Carla-Control'']) = Inr b \<and>
      map_of b ''custom_info_plist'' = Some (PyStr ''./data/macos/Carla-Control_Info.plist'') \<and>
      bundle_py (PyStr ''2.0'') [''SCRIPT_NAME'' \<mapsto> ''Carla-Control''] = Inr call \<and>
      bdist_mac call = Some b)"
proof -
  have h: "SCRIPT_NAME [''SCRIPT_NAME'' \<mapsto> ''Carla-Control''] = Some ''Carla-Control''"
    by (rule SCRIPT_NAME_set)
  from C3_plist_Carla_Control [OF h, of "PyStr ''2.0''"] h show ?thesis by simp
qed

text \<open>
  C4. For every other \<open>SCRIPT_NAME\<close>, the unset one included, the script raises nothing and
  reaches \<open>setup\<close>; the dictionary it passes for \<open>bdist_mac\<close> is \<open>boptions\<close> as first
  assigned, and has no key \<open>custom_info_plist\<close>.
\<close>

theorem C4_no_plist_otherwise:
  assumes "SCRIPT_NAME env \<noteq> Some ''Carla''" and "SCRIPT_NAME env \<noteq> Some ''Carla-Control''"
  shows "\<exists>call b. bundle_py VERSION env = Inr call \<and> bdist_mac call = Some b \<and>
           b = boptions_init \<and>
           ''custom_info_plist'' \<notin> set (map fst b) \<and>
           map_of b ''custom_info_plist'' = None"
  using assms by (simp add: bundle_py_value bdist_mac_def boptions_init_def)

theorem C4_no_plist_otherwise_witness:
  "SCRIPT_NAME Map.empty \<noteq> Some ''Carla'' \<and>
   SCRIPT_NAME Map.empty \<noteq> Some ''Carla-Control'' \<and>
   (\<exists>call. bundle_py (PyStr ''2.0'') Map.empty = Inr call \<and>
      bdist_mac call = Some [(''iconfile'', PyStr ''./resources/ico/carla.icns'')]) \<and>
   SCRIPT_NAME [''SCRIPT_NAME'' \<mapsto> ''carla''] \<noteq> Some ''Carla'' \<and>
   SCRIPT_NAME [''SCRIPT_NAME'' \<mapsto> ''carla''] \<noteq> Some ''Carla-Control'' \<and>
   (\<exists>call. bundle_py (PyStr ''2.0'') [''SCRIPT_NAME'' \<mapsto> ''carla''] = Inr call \<and>
      bdist_mac call = Some [(''iconfile'', PyStr ''./resources/ico/carla.icns'')])"
proof -
  have u1: "SCRIPT_NAME Map.empty \<noteq> Some ''Carla''"
    and u2: "SCRIPT_NAME Map.empty \<noteq> Some ''Carla-Control''"
    by (simp_all add: SCRIPT_NAME_unset)
  have s1: "SCRIPT_NAME [''SCRIPT_NAME'' \<mapsto> ''carla''] \<noteq> Some ''Carla''"
    and s2: "SCRIPT_NAME [''SCRIPT_NAME'' \<mapsto> ''carla''] \<noteq> Some ''Carla-Control''"
    by (simp_all add: SCRIPT_NAME_set)
  from C4_no_plist_otherwise [OF u1 u2, of "PyStr ''2.0''"]
  have a: "\<exists>call. bundle_py (PyStr ''2.0'') Map.empty = Inr call \<and>
             bdist_mac call = Some [(''iconfile'', PyStr ''./resources/ico/carla.icns'')]"
    by (simp add: boptions_init_def)
  from C4_no_plist_otherwise [OF s1 s2, of "PyStr ''2.0''"]
  have b: "\<exists>call. bundle_py (PyStr ''2.0'') [''SCRIPT_NAME'' \<mapsto> ''carla''] = Inr call \<and>
             bdist_mac call = Some [(''iconfile'', PyStr ''./resources/ico/carla.icns'')]"
    by (simp add: boptions_init_def)
  from u1 u2 s1 s2 a b show ?thesis by blast
qed

text \<open>
  C5. Whatever \<open>SCRIPT_NAME\<close> is, \<open>boptions\<close> maps \<open>iconfile\<close> to
  \<open>./resources/ico/carla.icns\<close> before the conditional, after it, and in the dictionary
  passed to \<open>setup\<close> for \<open>bdist_mac\<close>.
\<close>

theorem C5_iconfile:
  "map_of boptions_init ''iconfile'' = Some (PyStr ''./resources/ico/carla.icns'') \<and>
   (\<exists>b call. boptions (SCRIPT_NAME env) = Inr b \<and>
      map_of b ''iconfile'' = Some (PyStr ''./resources/ico/carla.icns'') \<and>
      bundle_py VERSION env = Inr call \<and> bdist_mac call = Some b)"
  by (simp add: bundle_py_value boptions_value bdist_mac_def boptions_init_def)

theorem C5_iconfile_witness:
  "\<exists>b call. boptions (SCRIPT_NAME [''SCRIPT_NAME'' \<mapsto> ''Carla'']) = Inr b \<and>
      map_of b ''iconfile'' = Some (PyStr ''./resources/ico/carla.icns'') \<and>
      bundle_py (PyStr ''2.0'') [''SCRIPT_NAME'' \<mapsto> ''Carla''] = Inr call \<and>
      bdist_mac call = Some b"
  using C5_iconfile [of "[''SCRIPT_NAME'' \<mapsto> ''Carla'']" "PyStr ''2.0''"] by blast

text \<open>
  C6. The dictionary passed to \<open>setup\<close> for \<open>build_exe\<close> is the literal of lines 19 to 24
  in every run: two runs, with any two environments, pass the same one.
\<close>

theorem C6_build_exe_static:
  "\<exists>call1 call2. bundle_py VERSION env1 = Inr call1 \<and> bundle_py VERSION env2 = Inr call2 \<and>
     build_exe call1 = build_exe call2 \<and>
     build_exe call1 =
       Some [(''zip_include_packages'', PyList [PyStr ''*'']),
             (''zip_exclude_packages'', PyList [PyStr ''PyQt5'']),
             (''replace_paths'', PyList [PyList [PyStr ''*'', PyStr ''@executable_path/'']]),
             (''optimize'', PyBool True)]"
  by (simp add: bundle_py_value build_exe_def options_def)

theorem C6_build_exe_static_witness:
  "\<exists>call1 call2. bundle_py (PyStr ''2.0'') Map.empty = Inr call1 \<and>
     bundle_py (PyStr ''2.0'') [''SCRIPT_NAME'' \<mapsto> ''Carla''] = Inr call2 \<and>
     build_exe call1 = build_exe call2"
  using C6_build_exe_static [of "PyStr ''2.0''" Map.empty "[''SCRIPT_NAME'' \<mapsto> ''Carla'']"]
  by blast

text \<open>
  C7. In every run the name passed to \<open>setup\<close> is \<open>Carla\<close> and the version is the
  \<open>VERSION\<close> of \<open>carla_host\<close>; two runs with the same \<open>VERSION\<close> pass the same two.
\<close>

theorem C7_name_version:
  "\<exists>call1 call2. bundle_py VERSION env1 = Inr call1 \<and> bundle_py VERSION env2 = Inr call2 \<and>
     kw_name call1 = ''Carla'' \<and> kw_version call1 = VERSION \<and>
     kw_name call2 = kw_name call1 \<and> kw_version call2 = kw_version call1"
  by (simp add: bundle_py_value)

theorem C7_name_version_witness:
  "\<exists>call. bundle_py (PyStr ''2.0'') [''SCRIPT_NAME'' \<mapsto> ''Carla-Control''] = Inr call \<and>
     kw_name call = ''Carla'' \<and> kw_version call = PyStr ''2.0''"
  using C7_name_version [of "PyStr ''2.0''" "[''SCRIPT_NAME'' \<mapsto> ''Carla-Control'']" Map.empty]
  by blast

text \<open>
  C8. The script raises no error of its own before \<open>setup\<close>, whatever the environment:
  it always reaches the call, and the path of the executable is built from \<open>SCRIPT_NAME\<close>
  as it is, \<open>None\<close> included, with no check. What \<open>setup\<close> does with the path is cx_Freeze's.
\<close>

theorem C8_no_error:
  "(\<forall>e. bundle_py VERSION env \<noteq> Inl e) \<and>
   (\<exists>call. bundle_py VERSION env = Inr call \<and>
      kw_executables call =
        [Executable (''./source/frontend/'' @ py_str (SCRIPT_NAME env) @ ''.pyw'')])"
  by (simp add: bundle_py_value)

theorem C8_no_error_witness:
  "(\<forall>e. bundle_py (PyStr ''2.0'') [''SCRIPT_NAME'' \<mapsto> ''no such script''] \<noteq> Inl e) \<and>
   (\<exists>call. bundle_py (PyStr ''2.0'') [''SCRIPT_NAME'' \<mapsto> ''no such script''] = Inr call \<and>
      kw_executables call = [Executable ''./source/frontend/no such script.pyw''])"
  using C8_no_error [of "PyStr ''2.0''" "[''SCRIPT_NAME'' \<mapsto> ''no such script'']"]
  by (simp add: SCRIPT_NAME_set)

text \<open>
  C9. When \<open>SCRIPT_NAME\<close> is not in the environment, the script raises nothing: the path of
  the executable passed to \<open>setup\<close> is \<open>./source/frontend/None.pyw\<close>, and the dictionary
  passed for \<open>bdist_mac\<close> has no key \<open>custom_info_plist\<close>.
\<close>

theorem C9_unset:
  assumes "env ''SCRIPT_NAME'' = None"
  shows "\<exists>call b. bundle_py VERSION env = Inr call \<and>
           kw_executables call = [Executable ''./source/frontend/None.pyw''] \<and>
           bdist_mac call = Some b \<and>
           ''custom_info_plist'' \<notin> set (map fst b)"
proof -
  from assms have "SCRIPT_NAME env = None"
    by (simp add: SCRIPT_NAME_def getenv_def)
  then show ?thesis
    by (simp add: bundle_py_value bdist_mac_def boptions_init_def)
qed

theorem C9_unset_witness:
  "(Map.empty :: environ) ''SCRIPT_NAME'' = None \<and>
   (\<exists>call b. bundle_py (PyStr ''2.0'') Map.empty = Inr call \<and>
      kw_executables call = [Executable ''./source/frontend/None.pyw''] \<and>
      bdist_mac call = Some b \<and>
      ''custom_info_plist'' \<notin> set (map fst b))"
proof -
  have h: "(Map.empty :: environ) ''SCRIPT_NAME'' = None" by simp
  from C9_unset [OF h, of "PyStr ''2.0''"] h show ?thesis by blast
qed

text \<open>
  C10. In every run the list of executables passed to \<open>setup\<close> has exactly one entry, and
  the dictionary passed for \<open>bdist_mac\<close> has at most two keys, each once: \<open>iconfile\<close>
  always, \<open>custom_info_plist\<close> exactly when \<open>SCRIPT_NAME\<close> is \<open>Carla\<close> or
  \<open>Carla-Control\<close>, and no other.
\<close>

theorem C10_shape:
  "\<exists>call b. bundle_py VERSION env = Inr call \<and>
     length (kw_executables call) = 1 \<and>
     bdist_mac call = Some b \<and>
     boptions (SCRIPT_NAME env) = Inr b \<and>
     distinct (map fst b) \<and> length b \<le> 2 \<and>
     set (map fst b) \<subseteq> {''iconfile'', ''custom_info_plist''} \<and>
     ''iconfile'' \<in> set (map fst b) \<and>
     (''custom_info_plist'' \<in> set (map fst b)) =
       (SCRIPT_NAME env = Some ''Carla'' \<or> SCRIPT_NAME env = Some ''Carla-Control'')"
  by (simp add: bundle_py_value boptions_value bdist_mac_def boptions_init_def)

theorem C10_shape_witness:
  "\<exists>call b. bundle_py (PyStr ''2.0'') [''SCRIPT_NAME'' \<mapsto> ''Carla''] = Inr call \<and>
     length (kw_executables call) = 1 \<and>
     bdist_mac call = Some b \<and>
     distinct (map fst b) \<and> length b \<le> 2 \<and>
     ''iconfile'' \<in> set (map fst b) \<and>
     ''custom_info_plist'' \<in> set (map fst b)"
proof -
  have h: "SCRIPT_NAME [''SCRIPT_NAME'' \<mapsto> ''Carla''] = Some ''Carla''"
    by (rule SCRIPT_NAME_set)
  from C10_shape [of "PyStr ''2.0''" "[''SCRIPT_NAME'' \<mapsto> ''Carla'']"]
  obtain call b where
    "bundle_py (PyStr ''2.0'') [''SCRIPT_NAME'' \<mapsto> ''Carla''] = Inr call"
    "length (kw_executables call) = 1"
    "bdist_mac call = Some b"
    "distinct (map fst b)" "length b \<le> 2"
    "''iconfile'' \<in> set (map fst b)"
    "(''custom_info_plist'' \<in> set (map fst b)) =
       (SCRIPT_NAME [''SCRIPT_NAME'' \<mapsto> ''Carla''] = Some ''Carla'' \<or>
        SCRIPT_NAME [''SCRIPT_NAME'' \<mapsto> ''Carla''] = Some ''Carla-Control'')"
    by blast
  with h show ?thesis by blast
qed

end
